theory Spec2Isabelle
  imports Complex_Main "HOL-Library.Multiset"
begin

section \<open>FetchRoute: the route optimiser of \<^verbatim>\<open>src/utils/routeOptimization.js\<close>\<close>

text \<open>
  The module exports four functions: \<^verbatim>\<open>calculateDistance\<close> (Haversine),
  \<^verbatim>\<open>nearestNeighbor\<close> (greedy tour), \<^verbatim>\<open>formatAppointmentsForRouting\<close>
  (input adaptation and validation) and \<^verbatim>\<open>optimizeRoute\<close> (tour plus schedule).

  Conventions of the embedding.
  \<^item> A JavaScript number is a \<open>real\<close>: IEEE rounding is not modelled, and neither
    are \<^verbatim>\<open>NaN\<close> and the infinities, except where the code itself writes
    \<^verbatim>\<open>Infinity\<close> (the initial \<^verbatim>\<open>shortestDistance\<close>), which is an \<open>option\<close>.
  \<^item> An absent value (\<^verbatim>\<open>undefined\<close>, \<^verbatim>\<open>null\<close>, a property an object does not
    have) is \<open>None\<close>.
  \<^item> A \<^verbatim>\<open>Date\<close> is its time value in milliseconds, or the invalid date.
  \<^item> A \<^verbatim>\<open>throw\<close>, and the \<^verbatim>\<open>TypeError\<close> of reading a property of
    \<^verbatim>\<open>undefined\<close>, is the \<open>Inl\<close> of a sum.
\<close>

subsection \<open>Data\<close>

record coordinates =
  latitude :: real
  longitude :: real

record address =
  formatted :: "string option"
  addr_coordinates :: "coordinates option"

record client =
  client_name :: string
  client_address :: "address option"

text \<open>An appointment record as the appointment model hands it over: \<^verbatim>\<open>date\<close> is a
  \<^verbatim>\<open>Date\<close> (its milliseconds), \<^verbatim>\<open>duration\<close> a number of minutes.\<close>

record appointment =
  appt_id :: string
  appt_clientId :: string
  appt_petId :: string
  appt_date :: "int option"
  appt_client :: "client option"
  appt_serviceType :: string
  appt_duration :: "real option"

datatype jsdate = Date int | InvalidDate

text \<open>
  A destination, as the object literal of \<^verbatim>\<open>formatAppointmentsForRouting\<close> builds it.
  The last field is not in that literal: \<^verbatim>\<open>optimizeRoute\<close> reads the property
  \<^verbatim>\<open>departureTime\<close> of a route stop, and the field holds what that read finds
  (\<open>None\<close> for an object that does not have the property).
\<close>

record stop =
  stop_id :: string
  stop_appointmentId :: string
  stop_clientId :: string
  stop_clientName :: string
  stop_petId :: string
  stop_time :: "int option"
  stop_address :: string
  stop_coordinates :: "coordinates option"
  stop_serviceType :: string
  stop_duration :: real
  stop_departureTime :: "jsdate option"

record starting_point =
  sp_name :: string
  sp_address :: string
  sp_coordinates :: "coordinates option"

datatype waypoint_type = Start | Appointment | End

datatype waypoint_source = FromPoint starting_point | FromStop stop

text \<open>A waypoint is the spread of a starting point or of a stop, with the three
  properties \<^verbatim>\<open>type\<close>, \<^verbatim>\<open>arrivalTime\<close> and \<^verbatim>\<open>departureTime\<close> set after it
  (\<open>None\<close> is \<^verbatim>\<open>null\<close>).\<close>

record waypoint =
  wp_source :: waypoint_source
  wp_type :: waypoint_type
  wp_arrivalTime :: "jsdate option"
  wp_departureTime :: "jsdate option"

record route_result =
  waypoints :: "waypoint list"
  optimizedRoute :: "stop list"
  appointmentIds :: "string list"
  totalDistance :: real
  estimatedTravelTime :: int
  startPoint :: starting_point
  endPoint :: starting_point

datatype js_error =
    InvalidStartingPoint
  | MissingCoordinates "int option"
  | TypeError

subsection \<open>calculateDistance\<close>

definition toRadians :: "real \<Rightarrow> real" where
  "toRadians degree = degree * pi / 180"

text \<open>\<^verbatim>\<open>Math.atan2(y, x)\<close>, the angle of the point \<open>(x, y)\<close> in \<open>(-pi, pi]\<close>.\<close>

definition atan2 :: "real \<Rightarrow> real \<Rightarrow> real" where
  "atan2 y x =
     (if 0 < x then arctan (y / x)
      else if x < 0 then (if 0 \<le> y then arctan (y / x) + pi else arctan (y / x) - pi)
      else if 0 < y then pi / 2
      else if y < 0 then - (pi / 2)
      else 0)"

definition calculateDistance :: "coordinates option \<Rightarrow> coordinates option \<Rightarrow> real" where
  "calculateDistance coord1 coord2 =
     (case coord1 of None \<Rightarrow> 0
      | Some c1 \<Rightarrow>
     (case coord2 of None \<Rightarrow> 0
      | Some c2 \<Rightarrow>
        (let R = 6371;
             dLat = toRadians (latitude c2 - latitude c1);
             dLng = toRadians (longitude c2 - longitude c1);
             a = sin (dLat / 2) * sin (dLat / 2) +
                 cos (toRadians (latitude c1)) * cos (toRadians (latitude c2)) *
                 sin (dLng / 2) * sin (dLng / 2);
             c = 2 * atan2 (sqrt a) (sqrt (1 - a));
             distance = R * c
         in distance)))"

subsection \<open>nearestNeighbor\<close>

text \<open>
  The inner \<^verbatim>\<open>for\<close> loop. Its state is the pair \<^verbatim>\<open>(nearestPointIndex,
  shortestDistance)\<close>: \<open>None\<close> is the initial \<^verbatim>\<open>(-1, Infinity)\<close>, and
  \<open>Some (i, d)\<close> an index with its distance. The comparison \<^verbatim>\<open>distance <
  shortestDistance\<close> is strict, and every number is less than \<^verbatim>\<open>Infinity\<close>.
\<close>

definition closer :: "real \<Rightarrow> (nat \<times> real) option \<Rightarrow> bool" where
  "closer distance best =
     (case best of None \<Rightarrow> True | Some (_, shortestDistance) \<Rightarrow> distance < shortestDistance)"

fun scanNearest ::
  "coordinates option \<Rightarrow> stop list \<Rightarrow> nat \<Rightarrow> (nat \<times> real) option \<Rightarrow> (nat \<times> real) option"
where
  "scanNearest cur [] i best = best"
| "scanNearest cur (point # rest) i best =
     (let distance = calculateDistance cur (stop_coordinates point)
      in scanNearest cur rest (Suc i) (if closer distance best then Some (i, distance) else best))"

abbreviation distTo :: "coordinates option \<Rightarrow> stop \<Rightarrow> real" where
  "distTo cur p \<equiv> calculateDistance cur (stop_coordinates p)"

text \<open>\<^verbatim>\<open>unvisited.splice(i, 1)\<close> for an index inside the array.\<close>

definition splice1 :: "nat \<Rightarrow> 'a list \<Rightarrow> 'a list" where
  "splice1 i xs = take i xs @ drop (Suc i) xs"

text \<open>
  The \<^verbatim>\<open>while\<close> loop. \<open>cur\<close> is \<^verbatim>\<open>currentPoint.coordinates\<close>. The branch
  \<open>None\<close> stands for an index still at \<open>-1\<close> after the scan of a non-empty pool; no
  real-valued distance leads there (\<open>scanNearest_nonempty\<close> below).
\<close>

function nnLoop ::
  "coordinates option \<Rightarrow> stop list \<Rightarrow> stop list \<Rightarrow> real \<Rightarrow> stop list \<times> real"
where
  "nnLoop cur unvisited route totalDist =
     (if length unvisited > 0 then
        (case scanNearest cur unvisited 0 None of
           None \<Rightarrow> (route, totalDist)
         | Some (nearestPointIndex, shortestDistance) \<Rightarrow>
             (let nearestPoint = unvisited ! nearestPointIndex
              in nnLoop (stop_coordinates nearestPoint) (splice1 nearestPointIndex unvisited)
                   (route @ [nearestPoint]) (totalDist + shortestDistance)))
      else (route, totalDist))"
  by pat_completeness auto
termination
proof (relation "measure (\<lambda>(cur, unvisited, route, totalDist). length unvisited)")
  show "wf (measure (\<lambda>(cur, unvisited, route, totalDist). length unvisited))"
    by simp
next
  fix cur :: "coordinates option" and unvisited route :: "stop list" and totalDist :: real
    and x2 :: "nat \<times> real" and i :: nat and d :: real and p :: stop
  assume s: "scanNearest cur unvisited 0 None = Some x2" and x: "(i, d) = x2"
  have bound: "scanNearest cur xs k best = Some (i, d) \<Longrightarrow>
      best = Some (i, d) \<or> (k \<le> i \<and> i < k + length xs)" for xs k best
  proof (induction xs arbitrary: k best)
    case Nil
    then show ?case by simp
  next
    case (Cons q qs)
    let ?b = "if closer (calculateDistance cur (stop_coordinates q)) best
              then Some (k, calculateDistance cur (stop_coordinates q)) else best"
    from Cons.prems have "scanNearest cur qs (Suc k) ?b = Some (i, d)"
      by (simp add: Let_def)
    from Cons.IH [OF this] show ?case
      by (auto split: if_splits)
  qed
  from s x bound [of unvisited 0 None] have "i < length unvisited"
    by simp
  then show "((stop_coordinates p, splice1 i unvisited, route @ [p], totalDist + d),
              (cur, unvisited, route, totalDist))
             \<in> measure (\<lambda>(cur, unvisited, route, totalDist). length unvisited)"
    by (simp add: splice1_def)
qed

declare nnLoop.simps [simp del]

definition nearestNeighbor ::
  "starting_point option \<Rightarrow> stop list option \<Rightarrow> stop list \<times> real"
where
  "nearestNeighbor startingPoint destinations =
     (case startingPoint of None \<Rightarrow> ([], 0)
      | Some sp \<Rightarrow>
     (case destinations of None \<Rightarrow> ([], 0)
      | Some ds \<Rightarrow>
        if length ds = 0 then ([], 0)
        else nnLoop (sp_coordinates sp) ds [] 0))"


subsection \<open>formatAppointmentsForRouting\<close>

text \<open>\<^verbatim>\<open>xs.map(f)\<close> with a callback that may throw: the first throw, in array order,
  leaves the map.\<close>

fun mapE :: "('a \<Rightarrow> js_error + 'b) \<Rightarrow> 'a list \<Rightarrow> js_error + 'b list" where
  "mapE f [] = Inr []"
| "mapE f (x # xs) =
     (case f x of Inl e \<Rightarrow> Inl e
      | Inr y \<Rightarrow> (case mapE f xs of Inl e \<Rightarrow> Inl e | Inr ys \<Rightarrow> Inr (y # ys)))"

text \<open>\<^verbatim>\<open>client.address.formatted || 'Address not available'\<close>: the empty string is
  falsy too.\<close>

definition addressOrDefault :: "string option \<Rightarrow> string" where
  "addressOrDefault f =
     (case f of None \<Rightarrow> ''Address not available''
      | Some s \<Rightarrow> if s = [] then ''Address not available'' else s)"

text \<open>\<^verbatim>\<open>appointment.duration || 60\<close>: zero is falsy too.\<close>

definition durationOrDefault :: "real option \<Rightarrow> real" where
  "durationOrDefault d = (case d of None \<Rightarrow> 60 | Some m \<Rightarrow> if m = 0 then 60 else m)"

text \<open>The callback of \<^verbatim>\<open>appointments.map\<close>. The message of its error is
  \<^verbatim>\<open>Missing coordinates for appointment at ${appointment.date}\<close>; the error value
  carries that date.\<close>

definition formatDestination :: "appointment \<Rightarrow> js_error + stop" where
  "formatDestination appointment =
     (case appt_client appointment of
        None \<Rightarrow> Inl (MissingCoordinates (appt_date appointment))
      | Some client \<Rightarrow>
     (case client_address client of
        None \<Rightarrow> Inl (MissingCoordinates (appt_date appointment))
      | Some addr \<Rightarrow>
     (case addr_coordinates addr of
        None \<Rightarrow> Inl (MissingCoordinates (appt_date appointment))
      | Some coords \<Rightarrow>
          Inr \<lparr> stop_id = appt_id appointment,
                stop_appointmentId = appt_id appointment,
                stop_clientId = appt_clientId appointment,
                stop_clientName = client_name client,
                stop_petId = appt_petId appointment,
                stop_time = appt_date appointment,
                stop_address = addressOrDefault (formatted addr),
                stop_coordinates = Some coords,
                stop_serviceType = appt_serviceType appointment,
                stop_duration = durationOrDefault (appt_duration appointment),
                stop_departureTime = None \<rparr>)))"

definition formatAppointmentsForRouting ::
  "appointment list \<Rightarrow> starting_point option \<Rightarrow> js_error + (starting_point \<times> stop list)"
where
  "formatAppointmentsForRouting appointments startingPoint =
     (case startingPoint of
        None \<Rightarrow> Inl InvalidStartingPoint
      | Some sp \<Rightarrow>
          if sp_coordinates sp = None then Inl InvalidStartingPoint
          else (case mapE formatDestination appointments of
                  Inl e \<Rightarrow> Inl e
                | Inr destinations \<Rightarrow> Inr (sp, destinations)))"

text \<open>The coordinates of the client of an appointment, when the client, its address
  and the coordinates of the address are all there.\<close>

definition clientCoordinates :: "appointment \<Rightarrow> coordinates option" where
  "clientCoordinates appointment =
     (case appt_client appointment of None \<Rightarrow> None
      | Some client \<Rightarrow>
          (case client_address client of None \<Rightarrow> None
           | Some addr \<Rightarrow> addr_coordinates addr))"

subsection \<open>optimizeRoute\<close>

text \<open>\<^verbatim>\<open>Math.round\<close>: the nearest integer, a half rounded up.\<close>

definition mathRound :: "real \<Rightarrow> int" where
  "mathRound x = \<lfloor>x + 1 / 2\<rfloor>"

text \<open>\<^verbatim>\<open>new Date(ms)\<close>: the time value is cut to a whole number of milliseconds
  (towards zero); outside \<open>\<plusminus>8.64e15\<close> the date is invalid.\<close>

definition newDate :: "real \<Rightarrow> jsdate" where
  "newDate ms =
     (if \<bar>ms\<bar> \<le> 8640000000000000
      then Date (if ms < 0 then \<lceil>ms\<rceil> else \<lfloor>ms\<rfloor>)
      else InvalidDate)"

text \<open>\<^verbatim>\<open>new Date(d.getTime() + ms)\<close>: the time of an invalid date is \<^verbatim>\<open>NaN\<close>, and
  so is the sum.\<close>

definition dateAfter :: "jsdate \<Rightarrow> real \<Rightarrow> jsdate" where
  "dateAfter d ms = (case d of InvalidDate \<Rightarrow> InvalidDate | Date t \<Rightarrow> newDate (real_of_int t + ms))"

text \<open>\<^verbatim>\<open>(travelTimeInMinutes / route.length) * 60000\<close>, the share of the travel time
  of one leg, in milliseconds.\<close>

definition legMillis :: "int \<Rightarrow> nat \<Rightarrow> real" where
  "legMillis travelTimeInMinutes n = (real_of_int travelTimeInMinutes / real n) * 60000"

text \<open>The first element of the \<^verbatim>\<open>waypoints\<close> literal. \<open>now\<close> is what
  \<^verbatim>\<open>new Date()\<close> returns there.\<close>

definition startWaypoint :: "starting_point \<Rightarrow> stop list \<Rightarrow> int \<Rightarrow> int \<Rightarrow> js_error + waypoint" where
  "startWaypoint startingPoint route travelTimeInMinutes now =
     (if length route > 0 then
        (case stop_time (route ! 0) of
           None \<Rightarrow> Inl TypeError
         | Some t \<Rightarrow>
             Inr \<lparr> wp_source = FromPoint startingPoint, wp_type = Start, wp_arrivalTime = None,
                   wp_departureTime =
                     Some (newDate (real_of_int t - legMillis travelTimeInMinutes (length route))) \<rparr>)
      else
        Inr \<lparr> wp_source = FromPoint startingPoint, wp_type = Start, wp_arrivalTime = None,
              wp_departureTime = Some (Date now) \<rparr>)"

text \<open>
  The callback of \<^verbatim>\<open>route.map\<close>, at an index inside the route. At index 0,
  \<^verbatim>\<open>new Date(stop.time)\<close> copies the date, and is the invalid date for an absent
  one. At a later index the callback reads the scheduled time and the duration of the
  stop before.
\<close>

definition appointmentWaypoint :: "stop list \<Rightarrow> int \<Rightarrow> nat \<Rightarrow> js_error + waypoint" where
  "appointmentWaypoint route travelTimeInMinutes index =
     (let stop = route ! index in
      case (if index = 0
            then Inr (case stop_time stop of None \<Rightarrow> InvalidDate | Some t \<Rightarrow> Date t)
            else (case stop_time (route ! (index - 1)) of
                    None \<Rightarrow> Inl TypeError
                  | Some t \<Rightarrow>
                      Inr (newDate (real_of_int t + stop_duration (route ! (index - 1)) * 60000 +
                                    legMillis travelTimeInMinutes (length route)))))
      of Inl e \<Rightarrow> Inl e
       | Inr arrivalTime \<Rightarrow>
           Inr \<lparr> wp_source = FromStop stop, wp_type = Appointment,
                 wp_arrivalTime = Some arrivalTime,
                 wp_departureTime = Some (dateAfter arrivalTime (stop_duration stop * 60000)) \<rparr>)"

definition appointmentWaypoints :: "stop list \<Rightarrow> int \<Rightarrow> js_error + waypoint list" where
  "appointmentWaypoints route travelTimeInMinutes =
     mapE (appointmentWaypoint route travelTimeInMinutes) [0..<length route]"

text \<open>The last element of the literal. It reads \<^verbatim>\<open>departureTime\<close> of the last stop
  of \<^verbatim>\<open>route\<close>, not of the last waypoint.\<close>

definition endWaypoint :: "starting_point \<Rightarrow> stop list \<Rightarrow> int \<Rightarrow> int \<Rightarrow> js_error + waypoint" where
  "endWaypoint startingPoint route travelTimeInMinutes now =
     (if length route > 0 then
        (case stop_departureTime (route ! (length route - 1)) of
           None \<Rightarrow> Inl TypeError
         | Some d \<Rightarrow>
             Inr \<lparr> wp_source = FromPoint startingPoint, wp_type = End,
                   wp_arrivalTime =
                     Some (dateAfter d (legMillis travelTimeInMinutes (length route))),
                   wp_departureTime = None \<rparr>)
      else
        Inr \<lparr> wp_source = FromPoint startingPoint, wp_type = End,
              wp_arrivalTime = Some (Date now), wp_departureTime = None \<rparr>)"

text \<open>\<open>nowStart\<close> and \<open>nowEnd\<close> are the two readings of the clock (\<^verbatim>\<open>new Date()\<close>)
  that an empty route takes. The elements of the array literal are evaluated in order.\<close>

definition optimizeRoute ::
  "int \<Rightarrow> int \<Rightarrow> appointment list \<Rightarrow> starting_point option \<Rightarrow> js_error + route_result"
where
  "optimizeRoute nowStart nowEnd appointments userStartPoint =
     (case formatAppointmentsForRouting appointments userStartPoint of
        Inl e \<Rightarrow> Inl e
      | Inr (startingPoint, destinations) \<Rightarrow>
          (let nn = nearestNeighbor (Some startingPoint) (Some destinations);
               route = fst nn;
               totalDist = snd nn;
               averageSpeed = 30;
               travelTimeInHours = totalDist / averageSpeed;
               travelTimeInMinutes = mathRound (travelTimeInHours * 60)
           in case startWaypoint startingPoint route travelTimeInMinutes nowStart of
                Inl e \<Rightarrow> Inl e
              | Inr w0 \<Rightarrow>
             (case appointmentWaypoints route travelTimeInMinutes of
                Inl e \<Rightarrow> Inl e
              | Inr ws \<Rightarrow>
             (case endWaypoint startingPoint route travelTimeInMinutes nowEnd of
                Inl e \<Rightarrow> Inl e
              | Inr wn \<Rightarrow>
                  Inr \<lparr> waypoints = [w0] @ ws @ [wn],
                        optimizedRoute = route,
                        appointmentIds = map stop_appointmentId route,
                        totalDistance = totalDist,
                        estimatedTravelTime = travelTimeInMinutes,
                        startPoint = startingPoint,
                        endPoint = startingPoint \<rparr>))))"

subsection \<open>Example inputs\<close>

text \<open>The starting point is the default one of the routes screen. \<open>exClient c\<close> is a
  client whose address has the coordinates \<open>c\<close>; \<open>exStop\<close> is the destination that
  \<open>formatDestination\<close> makes of \<open>exAppointment\<close>. The three appointments of
  \<open>exAppointments\<close> are at the starting point itself, at 09:00, 12:00 and 15:00 (as
  milliseconds), for 60, 30 and 45 minutes.\<close>

definition exCoordinates :: coordinates where
  "exCoordinates = \<lparr> latitude = 37.7749, longitude = -122.4194 \<rparr>"

definition exNearby :: coordinates where
  "exNearby = \<lparr> latitude = 37.78, longitude = -122.41 \<rparr>"

definition exHome :: starting_point where
  "exHome = \<lparr> sp_name = ''Home/Office'', sp_address = ''Default Location'',
              sp_coordinates = Some exCoordinates \<rparr>"

definition exClient :: "coordinates \<Rightarrow> client" where
  "exClient c = \<lparr> client_name = ''Dana'',
                  client_address = Some \<lparr> formatted = Some ''12 Salon Row'', addr_coordinates = Some c \<rparr> \<rparr>"

definition exAppointment :: "string \<Rightarrow> int option \<Rightarrow> real \<Rightarrow> client option \<Rightarrow> appointment" where
  "exAppointment i t d c =
     \<lparr> appt_id = i, appt_clientId = ''c1'', appt_petId = ''p1'', appt_date = t,
       appt_client = c, appt_serviceType = ''grooming'', appt_duration = Some d \<rparr>"

definition exStop :: "string \<Rightarrow> int option \<Rightarrow> real \<Rightarrow> coordinates \<Rightarrow> stop" where
  "exStop i t d c =
     \<lparr> stop_id = i, stop_appointmentId = i, stop_clientId = ''c1'', stop_clientName = ''Dana'',
       stop_petId = ''p1'', stop_time = t, stop_address = ''12 Salon Row'',
       stop_coordinates = Some c, stop_serviceType = ''grooming'', stop_duration = d,
       stop_departureTime = None \<rparr>"



definition exWaypoint :: "stop \<Rightarrow> int \<Rightarrow> int \<Rightarrow> waypoint" where
  "exWaypoint s a d =
     \<lparr> wp_source = FromStop s, wp_type = Appointment,
       wp_arrivalTime = Some (Date a), wp_departureTime = Some (Date d) \<rparr>"


section \<open>The distance\<close>



text \<open>The two square roots of \<open>calculateDistance\<close> are taken of numbers between 0
  and 1, whatever the coordinates are.\<close>

lemma haversine_unit:
  fixes p1 p2 l :: real
  defines "a \<equiv> sin ((p2 - p1) / 2) * sin ((p2 - p1) / 2) + cos p1 * cos p2 * sin (l / 2) * sin (l / 2)"
  shows "0 \<le> a \<and> a \<le> 1"
proof -
  define s where "s = sin (l / 2) * sin (l / 2)"
  define D where "D = cos (p2 - p1)"
  define S where "S = cos (p2 + p1)"
  have s0: "0 \<le> s" by (simp add: s_def)
  have s1: "s \<le> 1"
    using sin_squared_eq [of "l / 2"] zero_le_power2 [of "cos (l / 2)"]
    by (simp add: s_def power2_eq_square)
  have "2 * ((p2 - p1) / 2) = p2 - p1" by simp
  with cos_double_sin [of "(p2 - p1) / 2"]
  have "cos (p2 - p1) = 1 - 2 * (sin ((p2 - p1) / 2))\<^sup>2" by (simp only:)
  then have h: "sin ((p2 - p1) / 2) * sin ((p2 - p1) / 2) = (1 - D) / 2"
    by (simp add: D_def power2_eq_square)
  have c: "cos p1 * cos p2 = (D + S) / 2"
    by (simp add: D_def S_def cos_add cos_diff)
  have a: "a = (1 - D) / 2 + (D + S) / 2 * s"
    by (simp add: a_def h c s_def mult.assoc)
  have D: "- 1 \<le> D" "D \<le> 1" and S: "- 1 \<le> S" "S \<le> 1"
    by (simp_all add: D_def S_def)
  have "(1 - s) * D \<le> (1 - s) * 1"
    using s1 D(2) by (intro mult_left_mono) simp_all
  moreover have "(1 - s) * (- 1) \<le> (1 - s) * D"
    using s1 D(1) by (intro mult_left_mono) simp_all
  moreover have "s * S \<le> s * 1"
    using s0 S(2) by (intro mult_left_mono) simp_all
  moreover have "s * (- 1) \<le> s * S"
    using s0 S(1) by (intro mult_left_mono) simp_all
  moreover have "a = 1 / 2 - (1 - s) * D / 2 + s * S / 2"
    by (simp add: a field_simps)
  ultimately show ?thesis by simp
qed

lemma calculateDistance_radicands:
  "0 \<le> sin (toRadians (latitude c2 - latitude c1) / 2) * sin (toRadians (latitude c2 - latitude c1) / 2) +
        cos (toRadians (latitude c1)) * cos (toRadians (latitude c2)) *
        sin (toRadians (longitude c2 - longitude c1) / 2) * sin (toRadians (longitude c2 - longitude c1) / 2) \<and>
   0 \<le> 1 - (sin (toRadians (latitude c2 - latitude c1) / 2) * sin (toRadians (latitude c2 - latitude c1) / 2) +
        cos (toRadians (latitude c1)) * cos (toRadians (latitude c2)) *
        sin (toRadians (longitude c2 - longitude c1) / 2) * sin (toRadians (longitude c2 - longitude c1) / 2))"
proof -
  have "toRadians (latitude c2 - latitude c1) = toRadians (latitude c2) - toRadians (latitude c1)"
    by (simp add: toRadians_def field_simps)
  with haversine_unit [of "toRadians (latitude c2)" "toRadians (latitude c1)"
      "toRadians (longitude c2 - longitude c1)"]
  show ?thesis by simp
qed


section \<open>The scan for the nearest stop\<close>

lemma closer_None [simp]: "closer d None"
  by (simp add: closer_def)

lemma closer_Some [simp]: "closer d (Some (i, s)) \<longleftrightarrow> d < s"
  by (simp add: closer_def)

lemma scanNearest_Some:
  "scanNearest cur xs k (Some (b, db)) = r \<Longrightarrow>
     (r = Some (b, db) \<and> (\<forall>j<length xs. db \<le> distTo cur (xs ! j))) \<or>
     (\<exists>i<length xs. r = Some (k + i, distTo cur (xs ! i)) \<and> distTo cur (xs ! i) < db \<and>
        (\<forall>j<length xs. distTo cur (xs ! i) \<le> distTo cur (xs ! j)) \<and>
        (\<forall>j<i. distTo cur (xs ! i) < distTo cur (xs ! j)))"
proof (induction xs arbitrary: k b db)
  case Nil
  then show ?case by simp
next
  case (Cons p ps)
  show ?case
  proof (cases "distTo cur p < db")
    case True
    with Cons.prems have "scanNearest cur ps (Suc k) (Some (k, distTo cur p)) = r"
      by (simp add: Let_def)
    from Cons.IH [OF this] show ?thesis
    proof (elim disjE conjE exE)
      assume r: "r = Some (k, distTo cur p)"
        and m: "\<forall>j<length ps. distTo cur p \<le> distTo cur (ps ! j)"
      have "\<forall>j<length (p # ps). distTo cur p \<le> distTo cur ((p # ps) ! j)"
        using m by (auto simp: nth_Cons split: nat.splits)
      with r True show ?thesis
        by (intro disjI2 exI [of _ 0]) simp
    next
      fix i
      assume i: "i < length ps" and r: "r = Some (Suc k + i, distTo cur (ps ! i))"
        and lt: "distTo cur (ps ! i) < distTo cur p"
        and m: "\<forall>j<length ps. distTo cur (ps ! i) \<le> distTo cur (ps ! j)"
        and f: "\<forall>j<i. distTo cur (ps ! i) < distTo cur (ps ! j)"
      have "\<forall>j<length (p # ps). distTo cur (ps ! i) \<le> distTo cur ((p # ps) ! j)"
        using m lt by (auto simp: nth_Cons split: nat.splits)
      moreover have "\<forall>j<Suc i. distTo cur (ps ! i) < distTo cur ((p # ps) ! j)"
        using f lt by (auto simp: nth_Cons split: nat.splits)
      ultimately show ?thesis
        using i r lt True by (intro disjI2 exI [of _ "Suc i"]) simp
    qed
  next
    case False
    with Cons.prems have "scanNearest cur ps (Suc k) (Some (b, db)) = r"
      by (simp add: Let_def)
    from Cons.IH [OF this] show ?thesis
    proof (elim disjE conjE exE)
      assume r: "r = Some (b, db)"
        and m: "\<forall>j<length ps. db \<le> distTo cur (ps ! j)"
      have "\<forall>j<length (p # ps). db \<le> distTo cur ((p # ps) ! j)"
        using m False by (auto simp: nth_Cons split: nat.splits)
      with r show ?thesis by blast
    next
      fix i
      assume i: "i < length ps" and r: "r = Some (Suc k + i, distTo cur (ps ! i))"
        and lt: "distTo cur (ps ! i) < db"
        and m: "\<forall>j<length ps. distTo cur (ps ! i) \<le> distTo cur (ps ! j)"
        and f: "\<forall>j<i. distTo cur (ps ! i) < distTo cur (ps ! j)"
      have "\<forall>j<length (p # ps). distTo cur (ps ! i) \<le> distTo cur ((p # ps) ! j)"
        using m lt False by (auto simp: nth_Cons split: nat.splits)
      moreover have "\<forall>j<Suc i. distTo cur (ps ! i) < distTo cur ((p # ps) ! j)"
        using f lt False by (auto simp: nth_Cons split: nat.splits)
      ultimately show ?thesis
        using i r lt by (intro disjI2 exI [of _ "Suc i"]) simp
    qed
  qed
qed

lemma scanNearest_nonempty:
  assumes "xs \<noteq> []"
  shows "\<exists>i<length xs. scanNearest cur xs 0 None = Some (i, distTo cur (xs ! i)) \<and>
           (\<forall>j<length xs. distTo cur (xs ! i) \<le> distTo cur (xs ! j)) \<and>
           (\<forall>j<i. distTo cur (xs ! i) < distTo cur (xs ! j))"
proof -
  from assms obtain p ps where xs: "xs = p # ps" by (cases xs) auto
  have s: "scanNearest cur xs 0 None = scanNearest cur ps (Suc 0) (Some (0, distTo cur p))"
    by (simp add: xs Let_def)
  from scanNearest_Some [OF refl, of cur ps "Suc 0" 0 "distTo cur p"] show ?thesis
  proof (elim disjE conjE exE)
    assume r: "scanNearest cur ps (Suc 0) (Some (0, distTo cur p)) = Some (0, distTo cur p)"
      and m: "\<forall>j<length ps. distTo cur p \<le> distTo cur (ps ! j)"
    have "\<forall>j<length xs. distTo cur p \<le> distTo cur (xs ! j)"
      using m by (auto simp: xs nth_Cons split: nat.splits)
    with r s show ?thesis
      by (intro exI [of _ 0]) (simp add: xs)
  next
    fix i
    assume i: "i < length ps"
      and r: "scanNearest cur ps (Suc 0) (Some (0, distTo cur p)) = Some (Suc 0 + i, distTo cur (ps ! i))"
      and lt: "distTo cur (ps ! i) < distTo cur p"
      and m: "\<forall>j<length ps. distTo cur (ps ! i) \<le> distTo cur (ps ! j)"
      and f: "\<forall>j<i. distTo cur (ps ! i) < distTo cur (ps ! j)"
    have "\<forall>j<length xs. distTo cur (ps ! i) \<le> distTo cur (xs ! j)"
      using m lt by (auto simp: xs nth_Cons split: nat.splits)
    moreover have "\<forall>j<Suc i. distTo cur (ps ! i) < distTo cur (xs ! j)"
      using f lt by (auto simp: xs nth_Cons split: nat.splits)
    ultimately show ?thesis
      using i r s by (intro exI [of _ "Suc i"]) (simp add: xs)
  qed
qed

section \<open>The greedy tour\<close>

lemma mset_splice1:
  "i < length xs \<Longrightarrow> add_mset (xs ! i) (mset (splice1 i xs)) = mset xs"
  unfolding splice1_def
  by (metis id_take_nth_drop mset.simps(2) mset_append union_mset_add_mset_right)

lemma nnLoop_empty: "nnLoop cur [] route t = (route, t)"
  by (simp add: nnLoop.simps)

lemma nnLoop_step:
  "scanNearest cur unvisited 0 None = Some (i, d) \<Longrightarrow> unvisited \<noteq> [] \<Longrightarrow>
   nnLoop cur unvisited route t =
     nnLoop (stop_coordinates (unvisited ! i)) (splice1 i unvisited) (route @ [unvisited ! i]) (t + d)"
  by (subst nnLoop.simps) (simp add: Let_def)

lemma nnLoop_mset:
  "mset (fst (nnLoop cur unvisited route t)) = mset route + mset unvisited"
proof (induction cur unvisited route t rule: nnLoop.induct)
  case (1 cur unvisited route t)
  show ?case
  proof (cases "unvisited = []")
    case True
    then show ?thesis by (simp add: nnLoop_empty)
  next
    case False
    from scanNearest_nonempty [OF False, of cur] obtain i
      where i: "i < length unvisited"
        and s: "scanNearest cur unvisited 0 None = Some (i, distTo cur (unvisited ! i))"
      by blast
    from False have pos: "0 < length unvisited" by simp
    have "mset (fst (nnLoop cur unvisited route t)) =
          mset (route @ [unvisited ! i]) + mset (splice1 i unvisited)"
      using "1.IH" [OF pos s refl refl] nnLoop_step [OF s False] by simp
    also have "\<dots> = mset route + mset unvisited"
      using mset_splice1 [OF i] by simp
    finally show ?thesis .
  qed
qed


text \<open>C10. With an absent starting point, or an absent destination collection,
  \<open>nearestNeighbor\<close> returns the empty route and the distance 0; it raises nothing.\<close>

theorem nearestNeighbor_absent_input:
  "nearestNeighbor None destinations = ([], 0) \<and> nearestNeighbor startingPoint None = ([], 0)"
  by (simp add: nearestNeighbor_def split: option.split)




section \<open>Validation and schedule\<close>

lemma mapE_Inr:
  "mapE f xs = Inr ys \<Longrightarrow> length ys = length xs \<and> (\<forall>i<length xs. f (xs ! i) = Inr (ys ! i))"
proof (induction xs arbitrary: ys)
  case Nil
  then show ?case by simp
next
  case (Cons x xs)
  from Cons.prems obtain y ys' where y: "f x = Inr y" and r: "mapE f xs = Inr ys'" and ys: "ys = y # ys'"
    by (auto split: sum.splits)
  from Cons.IH [OF r] y ys show ?case
    by (auto simp: nth_Cons split: nat.splits)
qed

lemma mapE_Inl: "mapE f xs = Inl e \<Longrightarrow> \<exists>x\<in>set xs. f x = Inl e"
  by (induction xs) (auto split: sum.splits)

lemma mapE_first_error:
  "find (\<lambda>x. isl (f x)) xs = Some x \<Longrightarrow> mapE f xs = Inl (projl (f x))"
proof (induction xs)
  case Nil
  then show ?case by simp
next
  case (Cons y ys)
  show ?case
  proof (cases "f y")
    case (Inl e)
    with Cons.prems show ?thesis by simp
  next
    case (Inr z)
    with Cons.prems have "find (\<lambda>x. isl (f x)) ys = Some x" by simp
    from Cons.IH [OF this] Inr show ?thesis by simp
  qed
qed


lemma formatDestination_Inl:
  "clientCoordinates a = None \<Longrightarrow> formatDestination a = Inl (MissingCoordinates (appt_date a))"
  by (auto simp: clientCoordinates_def formatDestination_def split: option.splits)

lemma formatDestination_isl:
  "isl (formatDestination a) \<longleftrightarrow> clientCoordinates a = None"
  by (auto simp: clientCoordinates_def formatDestination_def split: option.splits)

lemma formatDestination_Inr:
  "formatDestination a = Inr s \<Longrightarrow>
     stop_departureTime s = None \<and> stop_time s = appt_date a \<and>
     stop_coordinates s = clientCoordinates a \<and> stop_coordinates s \<noteq> None"
  by (auto simp: clientCoordinates_def formatDestination_def split: option.splits)

lemma formatAppointmentsForRouting_Inr:
  assumes "formatAppointmentsForRouting appointments usp = Inr (sp, ds)"
  shows "usp = Some sp" and "sp_coordinates sp \<noteq> None" and "length ds = length appointments"
    and "\<forall>i<length appointments. formatDestination (appointments ! i) = Inr (ds ! i)"
    and "\<forall>s\<in>set ds. stop_departureTime s = None"
proof -
  from assms have u: "usp = Some sp" and c: "sp_coordinates sp \<noteq> None"
    and m: "mapE formatDestination appointments = Inr ds"
    by (auto simp: formatAppointmentsForRouting_def split: option.splits if_splits sum.splits)
  from u show "usp = Some sp" .
  from c show "sp_coordinates sp \<noteq> None" .
  from mapE_Inr [OF m] show l: "length ds = length appointments"
    and a: "\<forall>i<length appointments. formatDestination (appointments ! i) = Inr (ds ! i)"
    by simp_all
  show "\<forall>s\<in>set ds. stop_departureTime s = None"
  proof
    fix s assume "s \<in> set ds"
    then obtain i where "i < length ds" "ds ! i = s" by (auto simp: in_set_conv_nth)
    with a l have "formatDestination (appointments ! i) = Inr s" by simp
    from formatDestination_Inr [OF this] show "stop_departureTime s = None" by simp
  qed
qed

lemma startWaypoint_error: "startWaypoint sp route T now = Inl e \<Longrightarrow> e = TypeError"
  by (auto simp: startWaypoint_def split: if_splits option.splits)



lemma endWaypoint_absent:
  assumes "route \<noteq> []" and "\<forall>s\<in>set route. stop_departureTime s = None"
  shows "endWaypoint sp route T now = Inl TypeError"
proof -
  from assms(1) have "route ! (length route - 1) \<in> set route" by simp
  with assms show ?thesis by (simp add: endWaypoint_def)
qed

lemma appointmentWaypoint_error:
  "appointmentWaypoint route T i = Inl e \<Longrightarrow> e = TypeError"
  by (auto simp: appointmentWaypoint_def Let_def split: if_splits option.splits sum.splits)

lemma appointmentWaypoints_error:
  "appointmentWaypoints route T = Inl e \<Longrightarrow> e = TypeError"
  unfolding appointmentWaypoints_def
  using mapE_Inl appointmentWaypoint_error by blast





lemma optimizeRoute_unfold:
  assumes "formatAppointmentsForRouting appointments usp = Inr (sp, ds)"
  shows "optimizeRoute n1 n2 appointments usp =
     (let route = fst (nearestNeighbor (Some sp) (Some ds));
          totalDist = snd (nearestNeighbor (Some sp) (Some ds));
          T = mathRound (totalDist / 30 * 60)
      in case startWaypoint sp route T n1 of
           Inl e \<Rightarrow> Inl e
         | Inr w0 \<Rightarrow>
        (case appointmentWaypoints route T of
           Inl e \<Rightarrow> Inl e
         | Inr ws \<Rightarrow>
        (case endWaypoint sp route T n2 of
           Inl e \<Rightarrow> Inl e
         | Inr wn \<Rightarrow>
             Inr \<lparr> waypoints = [w0] @ ws @ [wn], optimizedRoute = route,
                   appointmentIds = map stop_appointmentId route, totalDistance = totalDist,
                   estimatedTravelTime = T, startPoint = sp, endPoint = sp \<rparr>)))"
  unfolding optimizeRoute_def assms Let_def by simp

lemma optimizeRoute_nonempty_TypeError:
  assumes f: "formatAppointmentsForRouting appointments usp = Inr (sp, ds)" and ne: "ds \<noteq> []"
  shows "optimizeRoute n1 n2 appointments usp = Inl TypeError"
proof -
  let ?route = "fst (nearestNeighbor (Some sp) (Some ds))"
  let ?T = "mathRound (snd (nearestNeighbor (Some sp) (Some ds)) / 30 * 60)"
  have m: "mset ?route = mset ds"
    by (simp add: nearestNeighbor_def nnLoop_mset)
  with ne have rne: "?route \<noteq> []" by auto
  from m have "set ?route = set ds" by (rule mset_eq_setD)
  with formatAppointmentsForRouting_Inr(5) [OF f]
  have "\<forall>s\<in>set ?route. stop_departureTime s = None" by simp
  from endWaypoint_absent [OF rne this] have e: "endWaypoint sp ?route ?T n2 = Inl TypeError" .
  show ?thesis
    unfolding optimizeRoute_unfold [OF f] Let_def
    using e startWaypoint_error [of sp ?route ?T n1] appointmentWaypoints_error [of ?route ?T]
    by (auto split: sum.splits)
qed

section \<open>The example inputs, evaluated\<close>

lemma formatDestination_example:
  "formatDestination (exAppointment i t d (Some (exClient c))) =
     Inr (exStop i t (durationOrDefault (Some d)) c)"
  by (simp add: formatDestination_def exAppointment_def exClient_def exStop_def addressOrDefault_def)









lemma nearestNeighbor_single:
  "nearestNeighbor (Some sp) (Some [s]) =
     ([s], calculateDistance (sp_coordinates sp) (stop_coordinates s))"
proof -
  have "scanNearest (sp_coordinates sp) [s] 0 None =
          Some (0, calculateDistance (sp_coordinates sp) (stop_coordinates s))"
    by (simp add: Let_def)
  from nnLoop_step [OF this, of "[]" 0] show ?thesis
    by (simp add: nearestNeighbor_def splice1_def nnLoop_empty)
qed



section \<open>Validation\<close>

text \<open>C4, as the code has it. A starting point that is absent or has no coordinates
  makes \<open>optimizeRoute\<close> fail with the error of the starting point, which names no
  appointment, whatever the appointments are. With a starting point that has
  coordinates, a list in which some appointment has no client coordinates makes it fail
  with the error that carries the scheduled time of the first such appointment. In both
  cases the result is the error alone: a sum has no partial result.\<close>

theorem optimizeRoute_validation:
  "((userStartPoint = None \<or> (\<exists>sp. userStartPoint = Some sp \<and> sp_coordinates sp = None)) \<longrightarrow>
      optimizeRoute nowStart nowEnd appointments userStartPoint = Inl InvalidStartingPoint) \<and>
   ((\<exists>sp c. userStartPoint = Some sp \<and> sp_coordinates sp = Some c) \<and>
    find (\<lambda>a. clientCoordinates a = None) appointments = Some a \<longrightarrow>
      optimizeRoute nowStart nowEnd appointments userStartPoint =
        Inl (MissingCoordinates (appt_date a)))"
proof (intro conjI impI)
  assume "userStartPoint = None \<or> (\<exists>sp. userStartPoint = Some sp \<and> sp_coordinates sp = None)"
  then show "optimizeRoute nowStart nowEnd appointments userStartPoint = Inl InvalidStartingPoint"
    by (auto simp: optimizeRoute_def formatAppointmentsForRouting_def)
next
  assume h: "(\<exists>sp c. userStartPoint = Some sp \<and> sp_coordinates sp = Some c) \<and>
    find (\<lambda>a. clientCoordinates a = None) appointments = Some a"
  then have "find (\<lambda>x. isl (formatDestination x)) appointments = Some a"
    by (simp add: formatDestination_isl)
  from mapE_first_error [OF this] have
    m: "mapE formatDestination appointments = Inl (projl (formatDestination a))" .
  from h have "clientCoordinates a = None"
    by (auto simp: find_Some_iff)
  from formatDestination_Inl [OF this] m
  have "mapE formatDestination appointments = Inl (MissingCoordinates (appt_date a))"
    by simp
  with h show "optimizeRoute nowStart nowEnd appointments userStartPoint =
        Inl (MissingCoordinates (appt_date a))"
    by (auto simp: optimizeRoute_def formatAppointmentsForRouting_def)
qed

text \<open>Witness of C4: a starting point without coordinates; and the default starting
  point with three appointments of which the second and the third have no client
  coordinates.\<close>

theorem optimizeRoute_validation_witness:
  "optimizeRoute 7 8 [exAppointment ''a1'' (Some 32400000) 60 None]
     (Some (exHome \<lparr> sp_coordinates := None \<rparr>)) = Inl InvalidStartingPoint \<and>
   optimizeRoute 7 8
     [exAppointment ''a1'' (Some 32400000) 60 (Some (exClient exNearby)),
      exAppointment ''a2'' (Some 43200000) 30 None,
      exAppointment ''a3'' (Some 54000000) 45 (Some \<lparr> client_name = ''Eli'', client_address = None \<rparr>)]
     (Some exHome) = Inl (MissingCoordinates (Some 43200000))"
proof -
  have "find (\<lambda>a. clientCoordinates a = None)
     [exAppointment ''a1'' (Some 32400000) 60 (Some (exClient exNearby)),
      exAppointment ''a2'' (Some 43200000) 30 None,
      exAppointment ''a3'' (Some 54000000) 45 (Some \<lparr> client_name = ''Eli'', client_address = None \<rparr>)]
     = Some (exAppointment ''a2'' (Some 43200000) 30 None)"
    by (simp add: clientCoordinates_def exAppointment_def exClient_def)
  moreover have "\<exists>sp c. Some exHome = Some sp \<and> sp_coordinates sp = Some c"
    by (simp add: exHome_def)
  moreover have "appt_date (exAppointment ''a2'' (Some 43200000) 30 None) = Some 43200000"
    by (simp add: exAppointment_def)
  moreover have "\<exists>sp. Some (exHome \<lparr> sp_coordinates := None \<rparr>) = Some sp \<and> sp_coordinates sp = None"
    by simp
  ultimately show ?thesis
    using optimizeRoute_validation [of "Some (exHome \<lparr> sp_coordinates := None \<rparr>)" 7 8
        "[exAppointment ''a1'' (Some 32400000) 60 None]"]
      optimizeRoute_validation [of "Some exHome" 7 8
        "[exAppointment ''a1'' (Some 32400000) 60 (Some (exClient exNearby)),
          exAppointment ''a2'' (Some 43200000) 30 None,
          exAppointment ''a3'' (Some 54000000) 45 (Some \<lparr> client_name = ''Eli'', client_address = None \<rparr>)]"
        "exAppointment ''a2'' (Some 43200000) 30 None"]
    by simp
qed

text \<open>C4 as stated fails: with a starting point that lacks coordinates and an
  appointment whose client is absent, the error is the one of the starting point, and
  it does not name the appointment.\<close>

theorem optimizeRoute_invalid_start_counterexample:
  "clientCoordinates (exAppointment ''a1'' (Some 32400000) 60 None) = None \<and>
   sp_coordinates (exHome \<lparr> sp_coordinates := None \<rparr>) = None \<and>
   optimizeRoute 0 0 [exAppointment ''a1'' (Some 32400000) 60 None]
     (Some (exHome \<lparr> sp_coordinates := None \<rparr>)) = Inl InvalidStartingPoint \<and>
   InvalidStartingPoint \<noteq> MissingCoordinates (appt_date (exAppointment ''a1'' (Some 32400000) 60 None))"
  by (simp add: optimizeRoute_def formatAppointmentsForRouting_def clientCoordinates_def
      exAppointment_def)

section \<open>The schedule\<close>



text \<open>The last stop of a non-empty route has no \<^verbatim>\<open>departureTime\<close>, so
  \<open>endWaypoint\<close> fails there: \<open>optimizeRoute\<close> succeeds on the empty appointment list
  only.\<close>

lemma optimizeRoute_success_empty:
  assumes "optimizeRoute nowStart nowEnd appointments userStartPoint = Inr r"
  shows "appointments = [] \<and> optimizedRoute r = []"
proof -
  from assms obtain sp ds where f: "formatAppointmentsForRouting appointments userStartPoint = Inr (sp, ds)"
    by (auto simp: optimizeRoute_def split: sum.splits)
  have "ds = []"
  proof (rule ccontr)
    assume "ds \<noteq> []"
    from optimizeRoute_nonempty_TypeError [OF f this] assms show False by simp
  qed
  with formatAppointmentsForRouting_Inr(3) [OF f] have "appointments = []" by simp
  moreover from assms \<open>ds = []\<close> have "optimizedRoute r = []"
    unfolding optimizeRoute_unfold [OF f] Let_def
    by (auto simp: nearestNeighbor_def split: sum.splits)
  ultimately show ?thesis by simp
qed

text \<open>C2, on the code. For one appointment at 09:00 for 60 minutes, near the default
  starting point, the start waypoint and the appointment waypoint are built, and the
  end waypoint, which reads \<^verbatim>\<open>departureTime\<close> of the route stop, fails with a
  \<open>TypeError\<close>; so does \<open>optimizeRoute\<close>. The claim expects an end waypoint whose
  arrival is the departure of the last appointment waypoint plus the share of a leg.\<close>

theorem optimizeRoute_end_waypoint_TypeError:
  "formatAppointmentsForRouting
     [exAppointment ''a1'' (Some 32400000) 60 (Some (exClient exNearby))] (Some exHome) =
     Inr (exHome, [exStop ''a1'' (Some 32400000) 60 exNearby]) \<and>
   fst (nearestNeighbor (Some exHome) (Some [exStop ''a1'' (Some 32400000) 60 exNearby])) =
     [exStop ''a1'' (Some 32400000) 60 exNearby] \<and>
   startWaypoint exHome [exStop ''a1'' (Some 32400000) 60 exNearby] T nowStart =
     Inr \<lparr> wp_source = FromPoint exHome, wp_type = Start, wp_arrivalTime = None,
           wp_departureTime = Some (newDate (32400000 - legMillis T 1)) \<rparr> \<and>
   appointmentWaypoints [exStop ''a1'' (Some 32400000) 60 exNearby] T =
     Inr [exWaypoint (exStop ''a1'' (Some 32400000) 60 exNearby) 32400000 36000000] \<and>
   stop_departureTime (exStop ''a1'' (Some 32400000) 60 exNearby) = None \<and>
   endWaypoint exHome [exStop ''a1'' (Some 32400000) 60 exNearby] T nowEnd = Inl TypeError \<and>
   optimizeRoute nowStart nowEnd
     [exAppointment ''a1'' (Some 32400000) 60 (Some (exClient exNearby))] (Some exHome) =
     Inl TypeError"
proof -
  have f: "formatAppointmentsForRouting
     [exAppointment ''a1'' (Some 32400000) 60 (Some (exClient exNearby))] (Some exHome) =
     Inr (exHome, [exStop ''a1'' (Some 32400000) 60 exNearby])"
    by (simp add: formatAppointmentsForRouting_def formatDestination_example
        durationOrDefault_def exHome_def)
  have w: "appointmentWaypoints [exStop ''a1'' (Some 32400000) 60 exNearby] T =
     Inr [exWaypoint (exStop ''a1'' (Some 32400000) 60 exNearby) 32400000 36000000]"
    by (simp add: appointmentWaypoints_def appointmentWaypoint_def exStop_def exWaypoint_def
        dateAfter_def newDate_def)
  have e: "endWaypoint exHome [exStop ''a1'' (Some 32400000) 60 exNearby] T nowEnd = Inl TypeError"
    by (simp add: endWaypoint_def exStop_def)
  have s: "startWaypoint exHome [exStop ''a1'' (Some 32400000) 60 exNearby] T nowStart =
     Inr \<lparr> wp_source = FromPoint exHome, wp_type = Start, wp_arrivalTime = None,
           wp_departureTime = Some (newDate (32400000 - legMillis T 1)) \<rparr>"
    by (simp add: startWaypoint_def exStop_def)
  from f s w e optimizeRoute_nonempty_TypeError [OF f] show ?thesis
    by (simp add: nearestNeighbor_single) (simp add: exStop_def)
qed







end
